theory Spec2Isabelle
  imports Complex_Main "HOL-Library.Stream"
begin

section \<open>JavaScript values used by the analysis engine\<close>

text \<open>
  The engine (class \<open>PersonaWriter\<close>) computes with JavaScript numbers. Counters are
  integers; every other number is the result of one division, one product with a literal
  and a clamp. The model keeps the finite values exact (rationals) and makes the three
  non-finite results of a division explicit, so that \<open>0 / 0\<close> is \<open>NaN\<close> and
  \<open>x / 0\<close> is an infinity, as in the source language. Rounding of the finite values
  is not modelled. No negative zero arises: every divisor is a length or a length times a
  positive literal.
\<close>

datatype jsnum = Num rat | PosInf | NegInf | NaN

text \<open>\<open>a / b\<close> on finite operands.\<close>

definition js_div :: "rat \<Rightarrow> rat \<Rightarrow> jsnum" where
  "js_div a b =
     (if b \<noteq> 0 then Num (a / b)
      else if a = 0 then NaN
      else if 0 < a then PosInf else NegInf)"

text \<open>\<open>x * c\<close> for a finite literal \<open>c\<close>.\<close>

fun js_times :: "jsnum \<Rightarrow> rat \<Rightarrow> jsnum" where
  "js_times (Num a) c = Num (a * c)"
| "js_times NaN c = NaN"
| "js_times PosInf c = (if c = 0 then NaN else if 0 < c then PosInf else NegInf)"
| "js_times NegInf c = (if c = 0 then NaN else if 0 < c then NegInf else PosInf)"

text \<open>\<open>Math.min\<close> and \<open>Math.max\<close>: \<open>NaN\<close> if either argument is \<open>NaN\<close>.\<close>

fun Math_min :: "jsnum \<Rightarrow> jsnum \<Rightarrow> jsnum" where
  "Math_min NaN y = NaN"
| "Math_min x NaN = NaN"
| "Math_min NegInf y = NegInf"
| "Math_min x NegInf = NegInf"
| "Math_min PosInf y = y"
| "Math_min x PosInf = x"
| "Math_min (Num a) (Num b) = Num (min a b)"

fun Math_max :: "jsnum \<Rightarrow> jsnum \<Rightarrow> jsnum" where
  "Math_max NaN y = NaN"
| "Math_max x NaN = NaN"
| "Math_max PosInf y = PosInf"
| "Math_max x PosInf = PosInf"
| "Math_max NegInf y = y"
| "Math_max x NegInf = x"
| "Math_max (Num a) (Num b) = Num (max a b)"

text \<open>\<open>x > c\<close> and \<open>x < c\<close> against a finite literal; both are false for \<open>NaN\<close>.\<close>

fun js_gt :: "jsnum \<Rightarrow> rat \<Rightarrow> bool" where
  "js_gt (Num a) c = (c < a)"
| "js_gt PosInf c = True"
| "js_gt NegInf c = False"
| "js_gt NaN c = False"

fun js_lt :: "jsnum \<Rightarrow> rat \<Rightarrow> bool" where
  "js_lt (Num a) c = (a < c)"
| "js_lt PosInf c = False"
| "js_lt NegInf c = True"
| "js_lt NaN c = False"

text \<open>Membership in the closed interval \<open>[0,1]\<close>; no non-finite value is a member.\<close>

fun in01 :: "jsnum \<Rightarrow> bool" where
  "in01 (Num a) = (0 \<le> a \<and> a \<le> 1)"
| "in01 PosInf = False"
| "in01 NegInf = False"
| "in01 NaN = False"

subsection \<open>Characters and strings\<close>

text \<open>
  A text is a \<^typ>\<open>string\<close>: a list of code units below 256, read as the first 256
  code points of Unicode. The character classes are those of the source's regular
  expressions restricted to that range: \<open>\w\<close> is \<open>[A-Za-z0-9_]\<close>, and \<open>\s\<close> is
  tab, line feed, vertical tab, form feed, carriage return, space and no-break space.
\<close>

definition isWordChar :: "char \<Rightarrow> bool" where
  "isWordChar c =
     (let n = (of_char c :: nat)
      in (48 \<le> n \<and> n \<le> 57) \<or> (65 \<le> n \<and> n \<le> 90) \<or> n = 95 \<or> (97 \<le> n \<and> n \<le> 122))"

definition isSpace :: "char \<Rightarrow> bool" where
  "isSpace c = (let n = (of_char c :: nat) in (9 \<le> n \<and> n \<le> 13) \<or> n = 32 \<or> n = 160)"

definition isUpperAZ :: "char \<Rightarrow> bool" where
  "isUpperAZ c = (let n = (of_char c :: nat) in 65 \<le> n \<and> n \<le> 90)"

text \<open>\<open>toLowerCase\<close>: the letters \<open>A-Z\<close> and the upper-case letters of the Latin-1 block.\<close>

definition toLowerChar :: "char \<Rightarrow> char" where
  "toLowerChar c =
     (let n = (of_char c :: nat)
      in if (65 \<le> n \<and> n \<le> 90) \<or> (192 \<le> n \<and> n \<le> 222 \<and> n \<noteq> 215)
         then char_of (n + 32) else c)"

definition toLowerCase :: "string \<Rightarrow> string" where
  "toLowerCase s = map toLowerChar s"

text \<open>\<open>s.trim()\<close>.\<close>

definition trim :: "string \<Rightarrow> string" where
  "trim s = rev (dropWhile isSpace (rev (dropWhile isSpace s)))"

text \<open>
  \<open>s.split(/[...]+/)\<close> for a character class \<open>d\<close>: the text is cut at every maximal run
  of characters of the class; a run at the start or at the end leaves an empty first or
  last part, and the empty text gives one empty part.
\<close>

function splitRuns :: "(char \<Rightarrow> bool) \<Rightarrow> string \<Rightarrow> string list" where
  "splitRuns d [] = [[]]"
| "splitRuns d (c # cs) =
     (if d c then [] # splitRuns d (dropWhile d cs)
      else (case splitRuns d cs of [] \<Rightarrow> [[c]] | p # ps \<Rightarrow> (c # p) # ps))"
  by pat_completeness auto
termination
  by (relation "measure (\<lambda>(d, s). length s)") (auto simp: less_Suc_eq_le length_dropWhile_le)

text \<open>\<open>s.includes(k)\<close>: \<open>k\<close> occurs in \<open>s\<close> as a contiguous substring.\<close>

fun startsWith :: "string \<Rightarrow> string \<Rightarrow> bool" where
  "startsWith s [] = True"
| "startsWith [] (k # ks) = False"
| "startsWith (c # cs) (k # ks) = (c = k \<and> startsWith cs ks)"

fun includesStr :: "string \<Rightarrow> string \<Rightarrow> bool" where
  "includesStr [] k = startsWith [] k"
| "includesStr (c # cs) k = (startsWith (c # cs) k \<or> includesStr cs k)"

section \<open>Tokenizer and sentence splitter\<close>

text \<open>
  \<open>tokenize\<close>: \<open>text.toLowerCase().replace(/[^\w\s]/g, ' ').split(/\s+/)\<close>, empty
  words filtered out.
\<close>

definition tokenize :: "string \<Rightarrow> string list" where
  "tokenize text =
     filter (\<lambda>word. length word > 0)
       (splitRuns isSpace
          (map (\<lambda>c. if \<not> isWordChar c \<and> \<not> isSpace c then CHR '' '' else c)
               (toLowerCase text)))"

definition isSentenceEnd :: "char \<Rightarrow> bool" where
  "isSentenceEnd c = (c = CHR ''.'' \<or> c = CHR ''!'' \<or> c = CHR ''?'')"

text \<open>\<open>splitSentences\<close>: \<open>text.split(/[.!?]+/).filter(s => s.trim().length > 0)\<close>.\<close>

definition splitSentences :: "string \<Rightarrow> string list" where
  "splitSentences text = filter (\<lambda>s. length (trim s) > 0) (splitRuns isSentenceEnd text)"

section \<open>Feature extractors\<close>

subsection \<open>Sentiment\<close>

record sentiment =
  polarity :: string
  strength :: jsnum

definition positiveWords :: "string list" where
  "positiveWords =
     [''love'', ''enjoy'', ''amazing'', ''awesome'', ''great'', ''excellent'', ''wonderful'',
      ''fantastic'', ''brilliant'', ''incredible'', ''perfect'', ''beautiful'', ''happy'',
      ''excited'', ''passionate'', ''thrilled'', ''delighted'', ''pleased'', ''satisfied'',
      ''good'', ''nice'', ''cool'', ''fun'', ''interesting'', ''fascinating'', ''inspiring'']"

definition negativeWords :: "string list" where
  "negativeWords =
     [''hate'', ''terrible'', ''awful'', ''horrible'', ''bad'', ''worst'', ''disappointing'',
      ''frustrated'', ''annoyed'', ''upset'', ''angry'', ''sad'', ''depressed'', ''boring'',
      ''stupid'', ''difficult'', ''problem'', ''issue'', ''concern'', ''worry'', ''fear'']"

text \<open>The \<open>forEach\<close> loop over the tokens, on the pair of counters.\<close>

definition sentimentStep :: "string \<Rightarrow> int \<times> int \<Rightarrow> int \<times> int" where
  "sentimentStep token = (\<lambda>(positiveScore, negativeScore).
     (if token \<in> set positiveWords then positiveScore + 1 else positiveScore,
      if token \<in> set negativeWords then negativeScore + 1 else negativeScore))"

definition analyzeSentiment :: "string list \<Rightarrow> sentiment" where
  "analyzeSentiment tokens =
     (let (positiveScore, negativeScore) = fold sentimentStep tokens (0, 0);
          netScore = positiveScore - negativeScore;
          totalEmotional = positiveScore + negativeScore
      in if totalEmotional = 0 then \<lparr>polarity = ''neutral'', strength = Num 0.3\<rparr>
         else
           (let strength =
                  Math_min (js_times (js_div (of_int totalEmotional) (of_nat (length tokens))) 10)
                           (Num 1)
            in if netScore > 0 then \<lparr>polarity = ''positive'', strength = strength\<rparr>
               else if netScore < 0 then \<lparr>polarity = ''negative'', strength = strength\<rparr>
               else \<lparr>polarity = ''neutral'', strength = strength\<rparr>))"

subsection \<open>Formality\<close>

definition formalIndicators :: "string list" where
  "formalIndicators =
     [''furthermore'', ''moreover'', ''consequently'', ''therefore'', ''however'',
      ''nevertheless'', ''approximately'', ''significant'', ''substantial'', ''comprehensive'',
      ''expertise'', ''professional'', ''experience'', ''responsibility'', ''objective'']"

definition informalIndicators :: "string list" where
  "informalIndicators =
     [''yeah'', ''cool'', ''awesome'', ''gonna'', ''wanna'', ''kinda'', ''sorta'',
      ''hey'', ''yo'', ''dude'', ''buddy'', ''stuff'', ''things'', ''pretty'',
      ''really'', ''super'', ''totally'', ''definitely'', ''absolutely'']"

text \<open>
  The matches of \<open>/'(ll|re|ve|d|t|s)\b/g\<close>. A match starts at an apostrophe, continues
  with one of the six endings and stops at a word boundary: the next character is not a
  word character, or the text ends. No two endings start with the same letter, and a
  match holds a single apostrophe, so the matches are the positions where one starts.
\<close>

definition contractionAt :: "string \<Rightarrow> bool" where
  "contractionAt s =
     list_ex (\<lambda>ending. startsWith s (CHR 0x27 # ending) \<and>
                (case drop (Suc (length ending)) s of [] \<Rightarrow> True | c # _ \<Rightarrow> \<not> isWordChar c))
       [''ll'', ''re'', ''ve'', ''d'', ''t'', ''s'']"

fun countContractions :: "string \<Rightarrow> nat" where
  "countContractions [] = 0"
| "countContractions (c # cs) =
     (if contractionAt (c # cs) then 1 else 0) + countContractions cs"

definition formalityStep :: "string \<Rightarrow> int \<times> int \<Rightarrow> int \<times> int" where
  "formalityStep token = (\<lambda>(formalScore, informalScore).
     (if token \<in> set formalIndicators then formalScore + 1 else formalScore,
      if token \<in> set informalIndicators then informalScore + 1 else informalScore))"

definition analyzeFormality :: "string \<Rightarrow> string list \<Rightarrow> jsnum" where
  "analyzeFormality text tokens =
     (let contractions = countContractions text;
          (formalScore, informalScore) = fold formalityStep tokens (0, 0);
          avgSentenceLength =
            js_div (of_nat (length tokens)) (of_nat (length (splitSentences text)));
          contractionsRatio = js_div (of_nat contractions) (of_nat (length tokens));
          formalScore = formalScore + (if js_gt avgSentenceLength 20 then 2 else 0);
          informalScore = informalScore + (if js_gt contractionsRatio 0.1 then 3 else 0);
          total = formalScore + informalScore
      in if total = 0 then Num 0.5
         else js_div (of_int formalScore) (of_int total))"

subsection \<open>Energy\<close>

definition highEnergyWords :: "string list" where
  "highEnergyWords =
     [''excited'', ''amazing'', ''awesome'', ''incredible'', ''fantastic'', ''brilliant'',
      ''love'', ''passion'', ''adventure'', ''explore'', ''discover'', ''create'',
      ''energy'', ''dynamic'', ''vibrant'', ''enthusiastic'', ''motivated'']"

definition lowEnergyWords :: "string list" where
  "lowEnergyWords =
     [''calm'', ''quiet'', ''peaceful'', ''relaxed'', ''gentle'', ''soft'', ''subtle'',
      ''comfortable'', ''steady'', ''stable'', ''consistent'', ''methodical'']"

text \<open>The matches of \<open>/!/g\<close>.\<close>

definition countExclamations :: "string \<Rightarrow> nat" where
  "countExclamations text = length (filter (\<lambda>c. c = CHR ''!'') text)"

text \<open>
  The matches of \<open>/\b[A-Z]{2,}\b/g\<close>. A match starts at a word boundary and ends at one,
  and holds word characters only, so it is a whole maximal run of word characters; the
  run matches when it has at least two characters, all of them in \<open>A-Z\<close>.
\<close>

definition countCapitalWords :: "string \<Rightarrow> nat" where
  "countCapitalWords text =
     length (filter (\<lambda>w. 2 \<le> length w \<and> list_all isUpperAZ w)
               (splitRuns (\<lambda>c. \<not> isWordChar c) text))"

definition energyStep :: "string \<Rightarrow> int \<Rightarrow> int" where
  "energyStep token energyScore =
     (let energyScore = (if token \<in> set highEnergyWords then energyScore + 2 else energyScore)
      in if token \<in> set lowEnergyWords then energyScore - 1 else energyScore)"

definition analyzeEnergy :: "string \<Rightarrow> string list \<Rightarrow> jsnum" where
  "analyzeEnergy text tokens =
     (let exclamations = countExclamations text;
          capitalWords = countCapitalWords text;
          energyScore = fold energyStep tokens 0;
          energyScore = energyScore + int exclamations * 2;
          energyScore = energyScore + int capitalWords
      in Math_max (Num 0)
           (Math_min (Num 1)
              (js_div (of_int energyScore + of_nat (length tokens) * 0.3)
                      (of_nat (length tokens) * 0.8))))"

subsection \<open>Topics\<close>

definition topicKeywords :: "(string \<times> string list) list" where
  "topicKeywords =
     [(''technology'', [''tech'', ''computer'', ''software'', ''programming'', ''code'',
                       ''digital'', ''ai'', ''data'']),
      (''creativity'', [''creative'', ''art'', ''design'', ''music'', ''writing'',
                       ''imagination'', ''artistic'']),
      (''business'', [''business'', ''management'', ''leadership'', ''strategy'',
                     ''marketing'', ''finance'']),
      (''lifestyle'', [''travel'', ''food'', ''fitness'', ''health'', ''family'', ''friends'',
                      ''hobbies'']),
      (''entertainment'', [''movies'', ''games'', ''books'', ''tv'', ''sports'', ''music'',
                          ''shows'']),
      (''education'', [''learning'', ''education'', ''teaching'', ''study'', ''knowledge'',
                      ''research''])]"

text \<open>
  The inner \<open>forEach\<close>: every keyword of the topic adds the number of tokens that include
  it.
\<close>

definition keywordScore :: "string list \<Rightarrow> string list \<Rightarrow> nat" where
  "keywordScore tokens keywords =
     fold (\<lambda>keyword score. score + length (filter (\<lambda>token. includesStr token keyword) tokens))
          keywords 0"

text \<open>\<open>Object.entries(topicScores)\<close>: the topics in the order of their declaration.\<close>

definition topicScores :: "string list \<Rightarrow> (string \<times> nat) list" where
  "topicScores tokens = map (\<lambda>(topic, keywords). (topic, keywordScore tokens keywords)) topicKeywords"

text \<open>
  \<open>sort((a, b) => b[1] - a[1])\<close> is a stable sort by descending score;
  \<^const>\<open>sort_key\<close> is a stable insertion sort, here on the negated score.
\<close>

definition extractTopics :: "string list \<Rightarrow> string list" where
  "extractTopics tokens =
     map fst
       (filter (\<lambda>(topic, score). score > 0)
          (take 3 (sort_key (\<lambda>(topic, score). - int score) (topicScores tokens))))"

subsection \<open>Vocabulary, questions, exclamations\<close>

text \<open>
  Of the vocabulary record only \<open>richness\<close> is modelled; \<open>frequentWords\<close> is read by
  no function of this development.
\<close>

record vocabulary =
  richness :: jsnum

definition analyzeVocabulary :: "string list \<Rightarrow> vocabulary" where
  "analyzeVocabulary tokens =
     \<lparr>richness = js_div (of_nat (length (remdups tokens))) (of_nat (length tokens))\<rparr>"

definition analyzeQuestions :: "string list \<Rightarrow> jsnum" where
  "analyzeQuestions sentences =
     (let questions = length (filter (\<lambda>s. includesStr s ''?'') sentences)
      in js_div (of_nat questions) (of_nat (length sentences)))"

definition analyzeExclamations :: "string list \<Rightarrow> jsnum" where
  "analyzeExclamations sentences =
     (let exclamations = length (filter (\<lambda>s. includesStr s ''!'') sentences)
      in js_div (of_nat exclamations) (of_nat (length sentences)))"

subsection \<open>The feature vector\<close>

text \<open>
  The object returned by \<open>analyzeText\<close>, without \<open>punctuationStyle\<close> and
  \<open>emojiUsage\<close>, which no function of this development reads.
\<close>

record analysis =
  wordCount :: nat
  sentenceCount :: nat
  avgWordsPerSentence :: jsnum
  sentiment :: sentiment
  formality :: jsnum
  energy :: jsnum
  topics :: "string list"
  vocabulary :: vocabulary
  questionRatio :: jsnum
  exclamationRatio :: jsnum
  originalText :: string

definition analyzeText :: "string \<Rightarrow> analysis" where
  "analyzeText text =
     (let tokens = tokenize text;
          sentences = splitSentences text
      in \<lparr>wordCount = length tokens,
          sentenceCount = length sentences,
          avgWordsPerSentence = js_div (of_nat (length tokens)) (of_nat (length sentences)),
          sentiment = analyzeSentiment tokens,
          formality = analyzeFormality text tokens,
          energy = analyzeEnergy text tokens,
          topics = extractTopics tokens,
          vocabulary = analyzeVocabulary tokens,
          questionRatio = analyzeQuestions sentences,
          exclamationRatio = analyzeExclamations sentences,
          originalText = text\<rparr>)"

section \<open>Persona synthesizer\<close>

subsection \<open>Random choice\<close>

text \<open>
  The results of the successive calls of \<open>Math.random()\<close> are a stream of numbers; a
  function that draws returns the rest of the stream. \<open>randomChoice(array)\<close> is
  \<open>array[Math.floor(Math.random() * array.length)]\<close>, which is \<open>undefined\<close>
  (here \<^const>\<open>None\<close>) when the index is not one of the array.
\<close>

type_synonym rng = "rat stream"

definition randomChoice :: "'a list \<Rightarrow> rng \<Rightarrow> 'a option \<times> rng" where
  "randomChoice array g =
     (let i = \<lfloor>shd g * of_nat (length array)\<rfloor>
      in (if 0 \<le> i \<and> i < int (length array) then Some (array ! nat i) else None, stl g))"

text \<open>A value inside a template literal: \<open>undefined\<close> prints as its name.\<close>

fun jsStr :: "string option \<Rightarrow> string" where
  "jsStr (Some s) = s"
| "jsStr None = ''undefined''"

subsection \<open>Name\<close>

definition prefixes_high_energy :: "string list" where
  "prefixes_high_energy = [''Spark'', ''Blaze'', ''Dash'', ''Flash'', ''Volt'', ''Zap'']"

definition prefixes_low_energy :: "string list" where
  "prefixes_low_energy = [''Zen'', ''Calm'', ''Sage'', ''Peace'', ''Gentle'', ''Quiet'']"

definition prefixes_creative :: "string list" where
  "prefixes_creative = [''Dream'', ''Vision'', ''Art'', ''Muse'', ''Pixel'', ''Canvas'']"

definition prefixes_professional :: "string list" where
  "prefixes_professional = [''Pro'', ''Elite'', ''Prime'', ''Expert'', ''Alpha'', ''Chief'']"

definition prefixes_friendly :: "string list" where
  "prefixes_friendly = [''Buddy'', ''Sunny'', ''Happy'', ''Joy'', ''Bright'', ''Cheer'']"

definition suffixes :: "(string \<times> string list) list" where
  "suffixes =
     [(''technology'', [''Tech'', ''Bot'', ''Byte'', ''Code'', ''Data'', ''Sync'']),
      (''creativity'', [''Art'', ''Craft'', ''Draw'', ''Write'', ''Make'', ''Create'']),
      (''business'', [''Pro'', ''Lead'', ''Boss'', ''Chief'', ''Head'', ''Star'']),
      (''lifestyle'', [''Life'', ''Style'', ''Vibe'', ''Flow'', ''Wave'', ''Soul'']),
      (''entertainment'', [''Fun'', ''Play'', ''Game'', ''Show'', ''Joy'', ''Laugh''])]"

text \<open>
  \<open>analysis.topics[0]\<close>, and the test \<open>primaryTopic && suffixes[primaryTopic]\<close>: the
  topic exists, is not the empty string and is a key of the table. Topic labels are
  those of \<^const>\<open>topicKeywords\<close>, so a lookup finds the table's own keys only.
\<close>

definition generatePersonaName :: "analysis \<Rightarrow> rng \<Rightarrow> string \<times> rng" where
  "generatePersonaName a g =
     (let (prefix, g1) =
            (if js_gt (analysis.energy a) 0.7 then randomChoice prefixes_high_energy g
             else if js_lt (analysis.energy a) 0.3 then randomChoice prefixes_low_energy g
             else if ''creativity'' \<in> set (analysis.topics a) then randomChoice prefixes_creative g
             else if js_gt (analysis.formality a) 0.7 then randomChoice prefixes_professional g
             else randomChoice prefixes_friendly g);
          (suffix, g2) =
            (case analysis.topics a of
               [] \<Rightarrow> (Some ''Mind'', g1)
             | primaryTopic # _ \<Rightarrow>
                 (if primaryTopic = [] then (Some ''Mind'', g1)
                  else (case map_of suffixes primaryTopic of
                          None \<Rightarrow> (Some ''Mind'', g1)
                        | Some list \<Rightarrow> randomChoice list g1)))
      in (jsStr prefix @ jsStr suffix, g2))"

subsection \<open>Traits\<close>

definition mapTraits :: "analysis \<Rightarrow> string list" where
  "mapTraits a =
     (let traits = [];
          traits = traits @ (if js_gt (analysis.formality a) 0.7 then [''Professional'']
                             else if js_lt (analysis.formality a) 0.3 then [''Casual'']
                             else [''Balanced'']);
          traits = traits @ (if js_gt (analysis.energy a) 0.7 then [''Energetic'']
                             else if js_lt (analysis.energy a) 0.3 then [''Calm'']
                             else [''Moderate'']);
          traits = traits @ (if js_gt (strength (analysis.sentiment a)) 0.5
                             then [if polarity (analysis.sentiment a) = ''positive''
                                   then ''Optimistic'' else ''Thoughtful'']
                             else []);
          traits = traits @ (if js_gt (questionRatio a) 0.3 then [''Curious''] else []);
          traits = traits @ (if js_gt (exclamationRatio a) 0.3 then [''Expressive''] else []);
          traits = traits @ (if ''creativity'' \<in> set (analysis.topics a) then [''Creative''] else []);
          traits = traits @ (if ''technology'' \<in> set (analysis.topics a) then [''Tech-Savvy''] else []);
          traits = traits @ (if ''business'' \<in> set (analysis.topics a) then [''Strategic''] else []);
          traits = traits @ (if js_gt (richness (vocabulary a)) 0.7 then [''Articulate''] else [])
      in take 5 traits)"

subsection \<open>Tagline\<close>

definition taglines :: "(string \<times> string) list" where
  "taglines =
     [(''creative_high_energy'', ''Turning imagination into reality with boundless creativity!''),
      (''creative_low_energy'', ''Crafting thoughtful art with serene inspiration.''),
      (''tech_high_energy'', ''Coding the future with unstoppable innovation!''),
      (''tech_low_energy'', ''Building tomorrow's solutions with methodical precision.''),
      (''professional_high_energy'', ''Leading dynamic teams to extraordinary results!''),
      (''professional_low_energy'', ''Delivering excellence through strategic thinking.''),
      (''friendly_high_energy'', ''Spreading joy and positive energy everywhere!''),
      (''friendly_low_energy'', ''Creating meaningful connections with gentle wisdom.''),
      (''default'', ''Bringing unique perspective to every conversation.'')]"

definition taglines_default :: string where
  "taglines_default = (case map_of taglines ''default'' of Some t \<Rightarrow> t | None \<Rightarrow> ''undefined'')"

text \<open>
  \<open>analysis.topics[0] || 'default'\<close> replaces a missing or empty first topic;
  \<open>taglines[key] || taglines.default\<close> replaces a missing entry (no entry is empty).
\<close>

definition generateTagline :: "analysis \<Rightarrow> string" where
  "generateTagline a =
     (let primaryTopic =
            (case analysis.topics a of [] \<Rightarrow> ''default''
             | t # _ \<Rightarrow> if t = [] then ''default'' else t);
          energyLevel = (if js_gt (analysis.energy a) 0.6 then ''high_energy'' else ''low_energy'');
          key = primaryTopic @ ''_'' @ energyLevel
      in (case map_of taglines key of
            Some t \<Rightarrow> if t = [] then taglines_default else t
          | None \<Rightarrow> taglines_default))"

section \<open>Response generator\<close>

subsection \<open>The persona profile\<close>

record communicationStyle =
  formality :: jsnum
  energy :: jsnum
  sentiment :: string
  topics :: "string list"

record persona =
  persona_id :: string
  name :: string
  avatar :: string
  tagline :: string
  traits :: "string list"
  signaturePhrases :: "string list"
  favoriteWords :: "string list"
  emojiStyle :: string
  communicationStyle :: communicationStyle
  createdAt :: string
  analysisData :: analysis

subsection \<open>Answers to questions\<close>

definition questionWords :: "string list" where
  "questionWords = [''what'', ''how'', ''why'', ''when'', ''where'', ''who'', ''which'']"

definition answerTemplates_general :: "string list" where
  "answerTemplates_general =
     [''That's an interesting question!'',
      ''Let me think about that...'',
      ''You know what?'',
      ''Here's what I think:'']"

definition answerTemplates :: "(string \<times> string list) list" where
  "answerTemplates =
     [(''what'', [''That's a great question! From my perspective,'',
                 ''I think what's really important here is'',
                 ''You know, I've always believed that'',
                 ''That's something I've thought about, and'']),
      (''how'', [''Here's how I see it:'',
                ''My approach would be to'',
                ''I've found that the best way is'',
                ''From my experience, you can'']),
      (''why'', [''That's because'',
                ''The reason I think that is'',
                ''Well, in my opinion'',
                ''I believe it's because'']),
      (''general'', answerTemplates_general)]"

definition elaborations :: "(string \<times> string list) list" where
  "elaborations =
     [(''technology'', [''Technology is constantly evolving and shaping our future.'',
                       ''The digital world offers incredible possibilities.'',
                       ''Innovation drives progress in amazing ways.'',
                       ''Tech solutions can solve so many problems.'']),
      (''creativity'', [''Creativity is the spark that ignites amazing ideas.'',
                       ''Art and imagination make life so much richer.'',
                       ''There's beauty in every creative expression.'',
                       ''Thinking outside the box opens new possibilities.'']),
      (''business'', [''Strategic thinking is key to success.'',
                     ''Leadership requires both vision and execution.'',
                     ''Effective planning makes all the difference.'',
                     ''Professional growth comes from continuous learning.'']),
      (''lifestyle'', [''Life is all about finding balance and joy.'',
                      ''Personal experiences shape who we become.'',
                      ''Every day brings new opportunities.'',
                      ''It's important to enjoy the journey.''])]"

definition generateElaboration :: "string list \<Rightarrow> persona \<Rightarrow> rng \<Rightarrow> string option \<times> rng" where
  "generateElaboration userTokens p g =
     (let topicList = communicationStyle.topics (communicationStyle p);
          words = favoriteWords p;
          relevantTopic =
            find (\<lambda>topic. list_ex (\<lambda>token. includesStr token topic) userTokens) topicList;
          library =
            (case relevantTopic of None \<Rightarrow> None
             | Some topic \<Rightarrow> if topic = [] then None else map_of elaborations topic)
      in (case library of
            Some list \<Rightarrow> randomChoice list g
          | None \<Rightarrow>
              if length words > 0
              then (let (word, g1) = randomChoice words g
                    in (Some (''I think '' @ jsStr word @ '' is really important in this context.''), g1))
              else (Some ''It's all about perspective and finding what works best!'', g)))"

definition generateAnswerResponse ::
  "string \<Rightarrow> string list \<Rightarrow> persona \<Rightarrow> rng \<Rightarrow> string \<times> rng" where
  "generateAnswerResponse userMessage userTokens p g =
     (let questionType =
            (case find (\<lambda>word. word \<in> set userTokens) questionWords of
               Some word \<Rightarrow> word | None \<Rightarrow> ''general'');
          templates =
            (case map_of answerTemplates questionType of
               Some list \<Rightarrow> list | None \<Rightarrow> answerTemplates_general);
          (template, g1) = randomChoice templates g;
          (elaboration, g2) = generateElaboration userTokens p g1
      in (jsStr template @ '' '' @ jsStr elaboration, g2))"

subsection \<open>Reactions\<close>

definition reactionTemplates :: "(string \<times> string list) list" where
  "reactionTemplates =
     [(''positive'', [''I love that!'',
                     ''That sounds amazing!'',
                     ''Absolutely!'',
                     ''That's fantastic!'',
                     ''I'm so glad you mentioned that!'']),
      (''negative'', [''I understand what you mean.'',
                     ''That can be challenging.'',
                     ''I hear you on that.'',
                     ''That's tough to deal with.'',
                     ''I get where you're coming from.'']),
      (''neutral'', [''Interesting!'',
                    ''That's a good point.'',
                    ''I see what you're saying.'',
                    ''That makes sense.'',
                    ''Tell me more about that.''])]"

definition followUps :: "string list" where
  "followUps =
     [''What's your take on that?'',
      ''Have you experienced something similar?'',
      ''I'd love to hear more about your thoughts.'',
      ''What do you think about it?'',
      ''How do you see it from your perspective?'',
      ''What's been your experience with that?'']"

text \<open>The list of the last \<open>randomChoice\<close> of \<open>generateFollowUp\<close>.\<close>

definition reflectiveFollowUps :: "string list" where
  "reflectiveFollowUps =
     [''That's something worth considering.'',
      ''It's always interesting to explore different ideas.'',
      ''There's so much to learn from different perspectives.'']"

definition generateFollowUp :: "string list \<Rightarrow> persona \<Rightarrow> rng \<Rightarrow> string option \<times> rng" where
  "generateFollowUp userTokens p g =
     (if ''Curious'' \<in> set (traits p) then randomChoice followUps g
      else if ''Expressive'' \<in> set (traits p) \<or> ''Energetic'' \<in> set (traits p)
      then (Some ''I find that really exciting to think about!'', g)
      else randomChoice reflectiveFollowUps g)"

definition generateReactiveResponse ::
  "string \<Rightarrow> string list \<Rightarrow> sentiment \<Rightarrow> persona \<Rightarrow> rng \<Rightarrow> string \<times> rng" where
  "generateReactiveResponse userMessage userTokens userSentiment p g =
     (let reactionType =
            (if polarity userSentiment = ''positive'' then ''positive''
             else if polarity userSentiment = ''negative'' then ''negative'' else ''neutral'');
          (reaction, g1) =
            (case map_of reactionTemplates reactionType of
               Some list \<Rightarrow> randomChoice list g | None \<Rightarrow> (None, stl g));
          (followUp, g2) = generateFollowUp userTokens p g1
      in (jsStr reaction @ '' '' @ jsStr followUp, g2))"

subsection \<open>Style\<close>

text \<open>
  \<open>response.replace(/\bP\b/gi, R)\<close> for a pattern \<open>P\<close> that starts and ends with a
  word character. The text is scanned from the left; \<open>prev\<close> tells whether the
  character before the current one is a word character, \<open>skip\<close> counts the characters
  of a match still to pass. A match needs a character that is not a word character (or
  no character) on both sides, and letters are compared without their case.
\<close>

definition matchesAt :: "string \<Rightarrow> string \<Rightarrow> bool" where
  "matchesAt pat s =
     (length pat \<le> length s \<and>
      map toLowerChar (take (length pat) s) = map toLowerChar pat \<and>
      (case drop (length pat) s of [] \<Rightarrow> True | c # _ \<Rightarrow> \<not> isWordChar c))"

fun replaceWord :: "string \<Rightarrow> string \<Rightarrow> bool \<Rightarrow> nat \<Rightarrow> string \<Rightarrow> string" where
  "replaceWord pat rep prev skip [] = []"
| "replaceWord pat rep prev skip (c # cs) =
     (if skip > 0 then replaceWord pat rep (isWordChar c) (skip - 1) cs
      else if \<not> prev \<and> matchesAt pat (c # cs)
      then rep @ replaceWord pat rep (isWordChar c) (length pat - 1) cs
      else c # replaceWord pat rep (isWordChar c) 0 cs)"

definition replaceAll :: "string \<Rightarrow> string \<Rightarrow> string \<Rightarrow> string" where
  "replaceAll pat rep s = replaceWord pat rep False 0 s"

definition makeFormal :: "string \<Rightarrow> string" where
  "makeFormal response =
     replaceAll ''you're'' ''you are''
       (replaceAll ''I'm'' ''I am''
          (replaceAll ''won't'' ''will not''
             (replaceAll ''can't'' ''cannot''
                (replaceAll ''that's'' ''that is'' response))))"

definition makeInformal :: "string \<Rightarrow> string" where
  "makeInformal response =
     replaceAll ''you are'' ''you're''
       (replaceAll ''I am'' ''I'm''
          (replaceAll ''will not'' ''won't''
             (replaceAll ''cannot'' ''can't''
                (replaceAll ''that is'' ''that's'' response))))"

text \<open>\<open>s.split(' ')\<close>: the text is cut at every occurrence of the character.\<close>

fun splitChar :: "char \<Rightarrow> string \<Rightarrow> string list" where
  "splitChar d [] = [[]]"
| "splitChar d (c # cs) =
     (if c = d then [] # splitChar d cs
      else (case splitChar d cs of [] \<Rightarrow> [[c]] | p # ps \<Rightarrow> (c # p) # ps))"

text \<open>
  Both calls of \<open>Math.random()\<close> happen whatever the profile holds: they are the left
  operands of the two conjunctions.
\<close>

definition applyPersonaStyle :: "string \<Rightarrow> persona \<Rightarrow> rng \<Rightarrow> string \<times> rng" where
  "applyPersonaStyle response p g =
     (let styledResponse = response;
          styledResponse =
            (if js_gt (communicationStyle.formality (communicationStyle p)) 0.7
             then makeFormal styledResponse
             else if js_lt (communicationStyle.formality (communicationStyle p)) 0.3
             then makeInformal styledResponse
             else styledResponse);
          styledResponse =
            (if js_gt (communicationStyle.energy (communicationStyle p)) 0.7
             then (if \<not> includesStr styledResponse ''!'' then styledResponse @ ''!''
                   else styledResponse)
             else styledResponse);
          r1 = shd g;
          g1 = stl g;
          (styledResponse, g2) =
            (if r1 < 0.3 \<and> length (signaturePhrases p) > 0
             then (let (phrase, g') = randomChoice (signaturePhrases p) g1
                   in (styledResponse @ '' '' @ jsStr phrase, g'))
             else (styledResponse, g1));
          r2 = shd g2;
          g3 = stl g2
      in if r2 < 0.4 \<and> emojiStyle p \<noteq> []
         then (let emojis = splitChar (CHR '' '') (emojiStyle p);
                   (emoji, g4) = randomChoice emojis g3
               in (styledResponse @ '' '' @ jsStr emoji, g4))
         else (styledResponse, g3))"

text \<open>\<open>generateResponse\<close>, with the current persona as an argument.\<close>

definition generateResponse :: "persona \<Rightarrow> string \<Rightarrow> rng \<Rightarrow> string \<times> rng" where
  "generateResponse p userMessage g =
     (let userTokens = tokenize (toLowerCase userMessage);
          isQuestion = includesStr userMessage ''?'';
          userSentiment = analyzeSentiment userTokens;
          (response, g1) =
            (if isQuestion then generateAnswerResponse userMessage userTokens p g
             else generateReactiveResponse userMessage userTokens userSentiment p g)
      in applyPersonaStyle response p g1)"

section \<open>Reference formulations\<close>

text \<open>
  The quantities in which the stated properties are phrased. None of them is used by the
  model of the program above.
\<close>

text \<open>The number of tokens that are in the positive lexicon, and in the negative one.\<close>

definition positiveCount :: "string list \<Rightarrow> nat" where
  "positiveCount tokens = length (filter (\<lambda>token. token \<in> set positiveWords) tokens)"

definition negativeCount :: "string list \<Rightarrow> nat" where
  "negativeCount tokens = length (filter (\<lambda>token. token \<in> set negativeWords) tokens)"

text \<open>The three formality traits and the three energy traits.\<close>

definition formalityTraits :: "string list" where
  "formalityTraits = [''Professional'', ''Casual'', ''Balanced'']"

definition energyTraits :: "string list" where
  "energyTraits = [''Energetic'', ''Calm'', ''Moderate'']"

text \<open>
  The prefix bucket by the stated priority order, and the candidates for the suffix: the
  list of the first topic when the suffix table has one, the single default otherwise.
\<close>

definition prefixBucket :: "analysis \<Rightarrow> string list" where
  "prefixBucket a =
     (if js_gt (analysis.energy a) 0.7 then prefixes_high_energy
      else if js_lt (analysis.energy a) 0.3 then prefixes_low_energy
      else if ''creativity'' \<in> set (analysis.topics a) then prefixes_creative
      else if js_gt (analysis.formality a) 0.7 then prefixes_professional
      else prefixes_friendly)"

definition suffixChoices :: "analysis \<Rightarrow> string list" where
  "suffixChoices a =
     (case analysis.topics a of
        [] \<Rightarrow> [''Mind'']
      | primaryTopic # _ \<Rightarrow>
          (case map_of suffixes primaryTopic of Some list \<Rightarrow> list | None \<Rightarrow> [''Mind'']))"

text \<open>A feature vector is well formed when its topics are labels of the fixed set.\<close>

definition topicLabels :: "string list" where
  "topicLabels = map fst topicKeywords"

text \<open>
  The score of a topic as the program computes it: the sum, over the keywords of the
  topic, of the number of tokens that include the keyword.
\<close>

definition topicScore :: "string list \<Rightarrow> string \<Rightarrow> nat" where
  "topicScore tokens topic =
     (case map_of topicKeywords topic of
        None \<Rightarrow> 0
      | Some keywords \<Rightarrow>
          sum_list (map (\<lambda>keyword. length (filter (\<lambda>token. includesStr token keyword) tokens))
                        keywords))"

text \<open>
  The score of a topic as a count of tokens: the number of tokens that include at least
  one keyword of the topic.
\<close>

definition containingCount :: "string list \<Rightarrow> string \<Rightarrow> nat" where
  "containingCount tokens topic =
     (case map_of topicKeywords topic of
        None \<Rightarrow> 0
      | Some keywords \<Rightarrow>
          length (filter (\<lambda>token. list_ex (\<lambda>keyword. includesStr token keyword) keywords) tokens))"

text \<open>The position of a label in the declaration order of the topics.\<close>

definition topicIndex :: "string \<Rightarrow> nat" where
  "topicIndex topic = length (takeWhile (\<lambda>label. label \<noteq> topic) topicLabels)"

text \<open>The order of the result: higher score first, on a tie the earlier declaration.\<close>

definition ranksBefore :: "string list \<Rightarrow> string \<Rightarrow> string \<Rightarrow> bool" where
  "ranksBefore tokens s t =
     (topicScore tokens s > topicScore tokens t \<or>
      (topicScore tokens s = topicScore tokens t \<and> topicIndex s < topicIndex t))"

text \<open>A profile with high energy and the trait \<open>Curious\<close>, for the examples.\<close>

definition examplePersona :: persona where
  "examplePersona =
     \<lparr>persona_id = ''persona_1'', name = ''SparkTech'', avatar = ''*'',
      tagline = ''Bringing unique perspective to every conversation.'',
      traits = [''Balanced'', ''Energetic'', ''Curious''],
      signaturePhrases = [''Let's dive right in!''],
      favoriteWords = [''software''],
      emojiStyle = '':) :D'',
      communicationStyle =
        \<lparr>formality = Num 0.5, energy = Num 0.9, sentiment = ''positive'',
         topics = [''technology'']\<rparr>,
      createdAt = ''2024-01-01T00:00:00.000Z'',
      analysisData = analyzeText ''I love software.''\<rparr>"

section \<open>Properties of the feature extractors\<close>

subsection \<open>Ranges of the scores\<close>

lemma js_div_in01: "0 \<le> a \<Longrightarrow> a \<le> b \<Longrightarrow> 0 < b \<Longrightarrow> in01 (js_div a b)"
  by (simp add: js_div_def)

lemma clamp_in01: "x \<noteq> NaN \<Longrightarrow> in01 (Math_max (Num 0) (Math_min (Num 1) x))"
  by (cases x) auto

lemma sentimentStep_mono: "sentimentStep t (p, n) = (p', n') \<Longrightarrow> p \<le> p' \<and> n \<le> n'"
  by (auto simp: sentimentStep_def split: if_splits)

lemma fold_sentimentStep_mono:
  "fold sentimentStep tokens (p, n) = (p', n') \<Longrightarrow> p \<le> p' \<and> n \<le> n'"
proof (induction tokens arbitrary: p n)
  case Nil
  then show ?case by simp
next
  case (Cons t ts)
  obtain p1 n1 where s: "sentimentStep t (p, n) = (p1, n1)" by force
  with Cons.prems have "fold sentimentStep ts (p1, n1) = (p', n')" by simp
  from Cons.IH[OF this] sentimentStep_mono[OF s] show ?case by linarith
qed

lemma formalityStep_mono: "formalityStep t (p, n) = (p', n') \<Longrightarrow> p \<le> p' \<and> n \<le> n'"
  by (auto simp: formalityStep_def split: if_splits)

lemma fold_formalityStep_mono:
  "fold formalityStep tokens (p, n) = (p', n') \<Longrightarrow> p \<le> p' \<and> n \<le> n'"
proof (induction tokens arbitrary: p n)
  case Nil
  then show ?case by simp
next
  case (Cons t ts)
  obtain p1 n1 where s: "formalityStep t (p, n) = (p1, n1)" by force
  with Cons.prems have "fold formalityStep ts (p1, n1) = (p', n')" by simp
  from Cons.IH[OF this] formalityStep_mono[OF s] show ?case by linarith
qed

lemma strength_formula_in01:
  "0 \<le> a \<Longrightarrow> 0 < b \<Longrightarrow> in01 (Math_min (js_times (js_div a b) 10) (Num 1))"
  by (simp add: js_div_def)

lemma analyzeSentiment_strength:
  "fold sentimentStep tokens (0, 0) = (p, n) \<Longrightarrow>
   strength (analyzeSentiment tokens) =
     (if p + n = 0 then Num 0.3
      else Math_min (js_times (js_div (of_int (p + n)) (of_nat (length tokens))) 10) (Num 1))"
  by (simp add: analyzeSentiment_def Let_def)

lemma analyzeSentiment_strength_in01: "in01 (strength (analyzeSentiment tokens))"
proof -
  obtain p n where f: "fold sentimentStep tokens (0, 0) = (p, n)" by force
  from fold_sentimentStep_mono[OF f] have pn: "0 \<le> p" "0 \<le> n" by simp_all
  show ?thesis
  proof (cases "p + n = 0")
    case True
    then show ?thesis unfolding analyzeSentiment_strength[OF f] by simp
  next
    case False
    have "tokens \<noteq> []" using f False by auto
    then have "in01 (Math_min (js_times (js_div (of_int (p + n)) (of_nat (length tokens))) 10)
                      (Num 1))"
      using pn by (intro strength_formula_in01) simp_all
    then show ?thesis unfolding analyzeSentiment_strength[OF f] using False by simp
  qed
qed

lemma analyzeFormality_in01: "in01 (analyzeFormality text tokens)"
proof -
  obtain p n where f: "fold formalityStep tokens (0, 0) = (p, n)" by force
  from fold_formalityStep_mono[OF f] have pn: "0 \<le> p" "0 \<le> n" by simp_all
  define p' where "p' = p + (if js_gt (js_div (of_nat (length tokens))
                                  (of_nat (length (splitSentences text)))) 20 then 2 else 0)"
  define n' where "n' = n + (if js_gt (js_div (of_nat (countContractions text))
                                  (of_nat (length tokens))) 0.1 then 3 else 0)"
  have pn': "0 \<le> p'" "0 \<le> n'" using pn by (simp_all add: p'_def n'_def)
  have eq: "analyzeFormality text tokens =
              (if p' + n' = 0 then Num 0.5 else js_div (of_int p') (of_int (p' + n')))"
    using f by (simp add: analyzeFormality_def Let_def p'_def n'_def)
  show ?thesis
  proof (cases "p' + n' = 0")
    case True
    then show ?thesis by (simp add: eq)
  next
    case False
    with pn' have "0 < p' + n'" by simp
    with pn' have "in01 (js_div (of_int p') (of_int (p' + n')))"
      by (intro js_div_in01) simp_all
    with False show ?thesis by (simp add: eq)
  qed
qed

lemma analyzeEnergy_in01: "tokens \<noteq> [] \<Longrightarrow> in01 (analyzeEnergy text tokens)"
  by (simp add: analyzeEnergy_def Let_def js_div_def clamp_in01)

lemma analyzeVocabulary_in01: "tokens \<noteq> [] \<Longrightarrow> in01 (richness (analyzeVocabulary tokens))"
  by (simp add: analyzeVocabulary_def js_div_in01)

lemma analyzeQuestions_in01: "sentences \<noteq> [] \<Longrightarrow> in01 (analyzeQuestions sentences)"
  by (simp add: analyzeQuestions_def js_div_in01)

lemma analyzeExclamations_in01: "sentences \<noteq> [] \<Longrightarrow> in01 (analyzeExclamations sentences)"
  by (simp add: analyzeExclamations_def js_div_in01)

lemma analyzeEnergy_exclaimed:
  "CHR ''!'' \<in> set text \<Longrightarrow> in01 (analyzeEnergy text [])"
proof -
  assume "CHR ''!'' \<in> set text"
  then have "0 < countExclamations text"
    by (simp add: countExclamations_def filter_empty_conv)
  then have "(0::rat) < of_int (int (countExclamations text) * 2 + int (countCapitalWords text))"
    by simp
  then show ?thesis
    by (simp add: analyzeEnergy_def Let_def js_div_def del: of_int_add of_int_mult)
qed

text \<open>
  Where the scores are in range. Formality and sentiment strength guard their zero
  totals and are in \<open>[0,1]\<close> for every text. The other four scores are in range when
  their divisor is not zero; the energy also when the text has no token but an
  exclamation mark, where the quotient is infinite and the clamp gives 1.
\<close>

lemma analyzeText_ranges:
  "in01 (analysis.formality (analyzeText text)) \<and>
   in01 (strength (analysis.sentiment (analyzeText text))) \<and>
   (tokenize text \<noteq> [] \<or> CHR ''!'' \<in> set text \<longrightarrow>
      in01 (analysis.energy (analyzeText text))) \<and>
   (tokenize text \<noteq> [] \<longrightarrow> in01 (richness (vocabulary (analyzeText text)))) \<and>
   (splitSentences text \<noteq> [] \<longrightarrow>
      in01 (questionRatio (analyzeText text)) \<and>
      in01 (exclamationRatio (analyzeText text)))"
proof -
  have "in01 (analyzeEnergy text (tokenize text))"
    if "tokenize text \<noteq> [] \<or> CHR ''!'' \<in> set text"
    using that analyzeEnergy_in01[of "tokenize text" "text"] analyzeEnergy_exclaimed[of "text"]
    by (cases "tokenize text = []") auto
  then show ?thesis
    by (simp add: analyzeText_def Let_def analyzeFormality_in01 analyzeSentiment_strength_in01
        analyzeVocabulary_in01 analyzeQuestions_in01 analyzeExclamations_in01)
qed

text \<open>
  C1: every text should have formality, energy, sentiment strength, vocabulary richness,
  question ratio and exclamation ratio in \<open>[0,1]\<close>, a division by a zero token or
  sentence count being replaced by a safe default. The program misses this. A text of
  fifty full stops passes the caller's check of the trimmed length and has no token and
  no sentence. Formality and sentiment strength fall back to their defaults 0.5 and 0.3
  there, but the energy, meant to be normalized to the scale from 0 to 1, is \<open>0 / 0\<close>,
  which the clamp lets through, and so are the richness and both ratios.
\<close>

theorem analyzeText_unguarded_division:
  "length (trim (replicate 50 (CHR ''.''))) = 50 \<and>
   analysis.formality (analyzeText (replicate 50 (CHR ''.''))) = Num 0.5 \<and>
   strength (analysis.sentiment (analyzeText (replicate 50 (CHR ''.'')))) = Num 0.3 \<and>
   analysis.energy (analyzeText (replicate 50 (CHR ''.''))) = NaN \<and>
   richness (vocabulary (analyzeText (replicate 50 (CHR ''.'')))) = NaN \<and>
   questionRatio (analyzeText (replicate 50 (CHR ''.''))) = NaN \<and>
   exclamationRatio (analyzeText (replicate 50 (CHR ''.''))) = NaN \<and>
   \<not> in01 NaN"
  by code_simp

subsection \<open>Sentiment\<close>

lemma fold_sentimentStep_counts:
  "fold sentimentStep tokens (p, n) =
     (p + int (positiveCount tokens), n + int (negativeCount tokens))"
  by (induction tokens arbitrary: p n)
     (simp_all add: sentimentStep_def positiveCount_def negativeCount_def)

lemma counts_zero_or_tokens: "positiveCount tokens + negativeCount tokens = 0 \<or> tokens \<noteq> []"
  by (cases tokens) (simp_all add: positiveCount_def negativeCount_def)

text \<open>The two counts are zero exactly when no token is in either lexicon.\<close>

lemma counts_zero_iff:
  "(positiveCount tokens + negativeCount tokens = 0) =
   (\<forall>token\<in>set tokens. token \<notin> set positiveWords \<and> token \<notin> set negativeWords)"
  by (auto simp: positiveCount_def negativeCount_def filter_empty_conv)

lemma strength_value:
  "b \<noteq> 0 \<Longrightarrow> Math_min (js_times (js_div a b) 10) (Num 1) = Num (min 1 (a / b * 10))"
  by (simp add: js_div_def min.commute)

text \<open>
  C4: the sentiment of a token sequence is neutral with strength 0.3 when no token is in
  a lexicon (both counts are zero); otherwise the strength is
  \<open>min(1, (positiveCount + negativeCount) / tokenCount * 10)\<close> and the polarity is the
  sign of \<open>positiveCount - negativeCount\<close>, neutral on a tie.
\<close>

theorem analyzeSentiment_spec:
  "analyzeSentiment tokens =
     (if positiveCount tokens + negativeCount tokens = 0
      then \<lparr>polarity = ''neutral'', strength = Num 0.3\<rparr>
      else \<lparr>polarity =
              (if positiveCount tokens > negativeCount tokens then ''positive''
               else if positiveCount tokens < negativeCount tokens then ''negative''
               else ''neutral''),
            strength =
              Num (min 1 (of_nat (positiveCount tokens + negativeCount tokens) /
                          of_nat (length tokens) * 10))\<rparr>)"
proof (cases "positiveCount tokens + negativeCount tokens = 0")
  case True
  then show ?thesis
    by (simp add: analyzeSentiment_def fold_sentimentStep_counts)
next
  case False
  with counts_zero_or_tokens[of tokens] have ne: "tokens \<noteq> []" by blast
  have tot: "(int (positiveCount tokens) + int (negativeCount tokens) = 0) = False"
    using False by auto
  show ?thesis
    using False ne
    by (simp add: analyzeSentiment_def fold_sentimentStep_counts Let_def strength_value tot)
qed

theorem analyzeSentiment_spec_witness:
  "analyzeSentiment [''the'', ''cat'', ''sat''] = \<lparr>polarity = ''neutral'', strength = Num 0.3\<rparr> \<and>
   analyzeSentiment (''love'' # ''hate'' # ''good'' # replicate 37 ''cat'')
     = \<lparr>polarity = ''positive'', strength = Num (3 / 4)\<rparr>"
proof -
  have a: "positiveCount [''the'', ''cat'', ''sat''] = 0"
    "negativeCount [''the'', ''cat'', ''sat''] = 0"
    by code_simp+
  have b: "positiveCount (''love'' # ''hate'' # ''good'' # replicate 37 ''cat'') = 2"
    "negativeCount (''love'' # ''hate'' # ''good'' # replicate 37 ''cat'') = 1"
    by code_simp+
  show ?thesis
    using analyzeSentiment_spec [of "[''the'', ''cat'', ''sat'']"]
      analyzeSentiment_spec [of "''love'' # ''hate'' # ''good'' # replicate 37 ''cat''"]
    by (simp add: a b)
qed

subsection \<open>Sentences\<close>

lemma splitRuns_nonempty: "splitRuns d s \<noteq> []"
  by (induction d s rule: splitRuns.induct) (auto split: list.splits)

lemma splitRuns_no_delimiter:
  "p \<in> set (splitRuns d s) \<Longrightarrow> c \<in> set p \<Longrightarrow> \<not> d c"
proof (induction d s arbitrary: p rule: splitRuns.induct)
  case (1 d)
  then show ?case by simp
next
  case (2 d x xs)
  show ?case
  proof (cases "d x")
    case True
    with 2 show ?thesis by auto
  next
    case False
    obtain q qs where q: "splitRuns d xs = q # qs"
      using splitRuns_nonempty[of d xs] by (cases "splitRuns d xs") auto
    with False "2.prems" have "p = x # q \<or> p \<in> set qs" by simp
    then show ?thesis
    proof
      assume "p = x # q"
      with "2.prems" "2.IH"(2)[OF False, of q] q False show ?thesis by auto
    next
      assume "p \<in> set qs"
      with "2.prems" "2.IH"(2)[OF False, of p] q show ?thesis by auto
    qed
  qed
qed

lemma concat_splitRuns: "concat (splitRuns d s) = filter (\<lambda>c. \<not> d c) s"
proof (induction d s rule: splitRuns.induct)
  case (1 d)
  then show ?case by simp
next
  case (2 d x xs)
  show ?case
  proof (cases "d x")
    case True
    have "filter (\<lambda>c. \<not> d c) (dropWhile d xs) = filter (\<lambda>c. \<not> d c) xs"
      by (induction xs) auto
    with True 2 show ?thesis by simp
  next
    case False
    with 2 show ?thesis by (auto split: list.splits)
  qed
qed

lemma splitRuns_without_delimiter: "\<forall>c\<in>set s. \<not> d c \<Longrightarrow> splitRuns d s = [s]"
  by (induction s) (auto split: list.splits)

lemma includesStr_char: "includesStr s [k] = (k \<in> set s)"
  by (induction s) auto

lemma dropWhile_keeps_others:
  "(\<exists>c\<in>set (dropWhile P s). \<not> P c) = (\<exists>c\<in>set s. \<not> P c)"
  by (induction s) auto

lemma trim_nonempty_iff: "(trim s \<noteq> []) = (\<exists>c\<in>set s. \<not> isSpace c)"
proof -
  have "(trim s \<noteq> []) = (\<exists>c\<in>set (rev (dropWhile isSpace s)). \<not> isSpace c)"
    by (simp add: trim_def dropWhile_eq_Nil_conv)
  also have "\<dots> = (\<exists>c\<in>set s. \<not> isSpace c)"
    by (simp add: dropWhile_keeps_others)
  finally show ?thesis .
qed

lemma sentence_chars:
  "s \<in> set (splitSentences text) \<Longrightarrow> c \<in> set s \<Longrightarrow> \<not> isSentenceEnd c"
  by (auto simp: splitSentences_def dest: splitRuns_no_delimiter)

lemma filter_concat_kept:
  "filter P (concat (filter (\<lambda>s. \<exists>c\<in>set s. P c) xs)) = filter P (concat xs)"
  by (induction xs) (auto simp: filter_empty_conv)

text \<open>
  C6, as stated, fails twice. The parts are not trimmed: the second sentence of
  \<open>One. Two\<close> keeps its leading space. And a text of one space is not empty and has no
  terminal punctuation, yet it has no sentence.
\<close>

theorem splitSentences_untrimmed:
  "splitSentences ''One. Two'' = [''One'', '' Two''] \<and>
   trim '' Two'' = ''Two'' \<and>
   splitSentences '' '' = []"
  by code_simp

text \<open>
  C6 (amended): \<open>splitSentences\<close> cuts the text at the runs of \<open>.\<close>, \<open>!\<close>, \<open>?\<close> and
  keeps, untrimmed, the parts that hold a character other than white space. So no
  sentence holds one of the three characters, the sentences together hold the
  characters of the text that are neither white space nor one of the three, in their
  order, the empty text has no sentence, and a text without the three characters that
  holds a character other than white space is its own single sentence.
\<close>

theorem splitSentences_parts:
  "splitSentences text =
     filter (\<lambda>s. \<exists>c\<in>set s. \<not> isSpace c) (splitRuns isSentenceEnd text) \<and>
   (\<forall>s\<in>set (splitSentences text). \<forall>c\<in>set s. \<not> isSentenceEnd c) \<and>
   filter (\<lambda>c. \<not> isSpace c) (concat (splitSentences text)) =
     filter (\<lambda>c. \<not> isSpace c) (filter (\<lambda>c. \<not> isSentenceEnd c) text) \<and>
   splitSentences [] = [] \<and>
   ((\<forall>c\<in>set text. \<not> isSentenceEnd c) \<and> (\<exists>c\<in>set text. \<not> isSpace c) \<longrightarrow>
      splitSentences text = [text])"
proof -
  have eq: "splitSentences t =
     filter (\<lambda>s. \<exists>c\<in>set s. \<not> isSpace c) (splitRuns isSentenceEnd t)" for t
    by (simp add: splitSentences_def trim_nonempty_iff)
  have chars: "\<forall>s\<in>set (splitSentences text). \<forall>c\<in>set s. \<not> isSentenceEnd c"
    using sentence_chars by blast
  have kept: "filter (\<lambda>c. \<not> isSpace c) (concat (splitSentences text)) =
     filter (\<lambda>c. \<not> isSpace c) (filter (\<lambda>c. \<not> isSentenceEnd c) text)"
    unfolding eq filter_concat_kept concat_splitRuns by (rule refl)
  have empty: "splitSentences [] = []"
    by (simp add: eq)
  have single: "splitSentences text = [text]"
    if "\<forall>c\<in>set text. \<not> isSentenceEnd c" "\<exists>c\<in>set text. \<not> isSpace c"
    using that by (simp add: eq splitRuns_without_delimiter)
  from eq chars kept empty single show ?thesis by blast
qed

theorem splitSentences_parts_witness:
  "list_all (\<lambda>c. \<not> isSentenceEnd c) ''Hello world'' \<and>
   list_ex (\<lambda>c. \<not> isSpace c) ''Hello world'' \<and>
   splitSentences ''Hello world'' = [''Hello world'']"
proof -
  have a: "\<forall>c\<in>set ''Hello world''. \<not> isSentenceEnd c" by code_simp
  have b: "\<exists>c\<in>set ''Hello world''. \<not> isSpace c" by code_simp
  from splitSentences_parts [of "''Hello world''"] a b show ?thesis
    unfolding list_all_iff list_ex_iff by blast
qed

subsection \<open>Question and exclamation ratios\<close>

lemma ratio_zero:
  "sentences \<noteq> [] \<Longrightarrow> \<forall>s\<in>set sentences. k \<notin> set s \<Longrightarrow>
   js_div (of_nat (length (filter (\<lambda>s. includesStr s [k]) sentences)))
          (of_nat (length sentences)) = Num 0"
  by (simp add: includesStr_char js_div_def)

lemma ratio_never_above:
  "\<forall>s\<in>set sentences. k \<notin> set s \<Longrightarrow>
   \<not> js_gt (js_div (of_nat (length (filter (\<lambda>s. includesStr s [k]) sentences)))
                 (of_nat (length sentences))) 0.3"
  by (simp add: includesStr_char js_div_def)

lemma Curious_needs_ratio:
  "''Curious'' \<in> set (mapTraits a) \<Longrightarrow> js_gt (questionRatio a) 0.3"
  unfolding mapTraits_def Let_def
  apply (drule in_set_takeD)
  apply (simp only: set_append Un_iff)
  apply (elim disjE)
  apply (simp_all split: if_splits)
  done

lemma Expressive_needs_ratio:
  "''Expressive'' \<in> set (mapTraits a) \<Longrightarrow> js_gt (exclamationRatio a) 0.3"
  unfolding mapTraits_def Let_def
  apply (drule in_set_takeD)
  apply (simp only: set_append Un_iff)
  apply (elim disjE)
  apply (simp_all split: if_splits)
  done

text \<open>
  C2: no sentence of a text holds \<open>?\<close> or \<open>!\<close>; so for a text with at least one
  sentence \<open>analyzeQuestions\<close> and \<open>analyzeExclamations\<close> return exactly 0, and the traits
  mapped from the analysis of any text hold neither \<open>Curious\<close> nor \<open>Expressive\<close>.
\<close>

theorem ratios_always_zero:
  "(\<forall>s\<in>set (splitSentences text). CHR ''?'' \<notin> set s \<and> CHR ''!'' \<notin> set s) \<and>
   (splitSentences text \<noteq> [] \<longrightarrow>
      analyzeQuestions (splitSentences text) = Num 0 \<and>
      analyzeExclamations (splitSentences text) = Num 0 \<and>
      questionRatio (analyzeText text) = Num 0 \<and>
      exclamationRatio (analyzeText text) = Num 0) \<and>
   ''Curious'' \<notin> set (mapTraits (analyzeText text)) \<and>
   ''Expressive'' \<notin> set (mapTraits (analyzeText text))"
proof -
  have q: "\<forall>s\<in>set (splitSentences text). CHR ''?'' \<notin> set s"
    using sentence_chars[of _ "text" "CHR ''?''"] by (auto simp: isSentenceEnd_def)
  have e: "\<forall>s\<in>set (splitSentences text). CHR ''!'' \<notin> set s"
    using sentence_chars[of _ "text" "CHR ''!''"] by (auto simp: isSentenceEnd_def)
  have zero: "analyzeQuestions (splitSentences text) = Num 0"
    "analyzeExclamations (splitSentences text) = Num 0"
    if "splitSentences text \<noteq> []"
    using ratio_zero[OF that q] ratio_zero[OF that e]
    by (simp_all add: analyzeQuestions_def analyzeExclamations_def)
  have "\<not> js_gt (questionRatio (analyzeText text)) 0.3"
    using ratio_never_above[OF q] by (simp add: analyzeText_def analyzeQuestions_def Let_def)
  then have c: "''Curious'' \<notin> set (mapTraits (analyzeText text))"
    using Curious_needs_ratio by blast
  have "\<not> js_gt (exclamationRatio (analyzeText text)) 0.3"
    using ratio_never_above[OF e] by (simp add: analyzeText_def analyzeExclamations_def Let_def)
  then have x: "''Expressive'' \<notin> set (mapTraits (analyzeText text))"
    using Expressive_needs_ratio by blast
  from q e zero c x show ?thesis by (simp add: analyzeText_def Let_def)
qed

theorem ratios_always_zero_witness:
  "splitSentences ''Are you sure? Yes! Fine.'' \<noteq> [] \<and>
   analyzeQuestions (splitSentences ''Are you sure? Yes! Fine.'') = Num 0 \<and>
   analyzeExclamations (splitSentences ''Are you sure? Yes! Fine.'') = Num 0 \<and>
   ''Curious'' \<notin> set (mapTraits (analyzeText ''Are you sure? Yes! Fine.''))"
proof -
  have a: "splitSentences ''Are you sure? Yes! Fine.'' \<noteq> []" by code_simp
  from ratios_always_zero [of "''Are you sure? Yes! Fine.''"] a show ?thesis by blast
qed

section \<open>Properties of the persona synthesizer\<close>

subsection \<open>Tagline\<close>

lemma extractTopics_labels: "set (extractTopics tokens) \<subseteq> set topicLabels"
proof -
  have "set (extractTopics tokens) \<subseteq> fst ` set (topicScores tokens)"
    unfolding extractTopics_def using set_take_subset by fastforce
  also have "fst ` set (topicScores tokens) = set topicLabels"
    by (force simp: topicScores_def topicLabels_def)
  finally show ?thesis .
qed

lemma topicLabels_cases:
  "t \<in> set topicLabels \<Longrightarrow>
   t \<in> {''technology'', ''creativity'', ''business'', ''lifestyle'', ''entertainment'',
        ''education''}"
  by (simp add: topicLabels_def topicKeywords_def)

text \<open>No key built from a topic label or from \<open>default\<close> is in the tagline table.\<close>

lemma tagline_keys_absent:
  "t \<in> set topicLabels \<or> t = ''default'' \<Longrightarrow>
   map_of taglines (t @ ''_high_energy'') = None \<and>
   map_of taglines (t @ ''_low_energy'') = None"
  by (auto dest!: topicLabels_cases simp: taglines_def)

lemma tagline_of_labels:
  assumes "set (analysis.topics a) \<subseteq> set topicLabels"
  shows "generateTagline a = ''Bringing unique perspective to every conversation.''"
proof (cases "analysis.topics a")
  case Nil
  then show ?thesis by (simp add: generateTagline_def taglines_def taglines_default_def)
next
  case (Cons t ts)
  with assms have "t \<in> set topicLabels" by auto
  then have "t \<in> {''technology'', ''creativity'', ''business'', ''lifestyle'',
                  ''entertainment'', ''education''}"
    by (rule topicLabels_cases)
  then show ?thesis using Cons
    by (auto simp add: generateTagline_def taglines_def taglines_default_def)
qed

text \<open>
  C3: for every feature vector whose topics are labels of the fixed set, and so for the
  analysis of every text, \<open>generateTagline\<close> returns the default tagline.
\<close>

theorem generateTagline_default:
  "(set (analysis.topics a) \<subseteq> set topicLabels \<longrightarrow>
      generateTagline a = ''Bringing unique perspective to every conversation.'') \<and>
   generateTagline (analyzeText text) = ''Bringing unique perspective to every conversation.''"
proof -
  have "set (analysis.topics (analyzeText text)) \<subseteq> set topicLabels"
    by (simp add: analyzeText_def Let_def extractTopics_labels)
  then show ?thesis using tagline_of_labels by blast
qed

theorem generateTagline_default_witness:
  "set (analysis.topics (analyzeText ''I love software and loud music!'')) \<subseteq> set topicLabels \<and>
   analysis.topics (analyzeText ''I love software and loud music!'') \<noteq> [] \<and>
   generateTagline (analyzeText ''I love software and loud music!'') =
     ''Bringing unique perspective to every conversation.''"
proof -
  have a: "set (analysis.topics (analyzeText ''I love software and loud music!'')) \<subseteq> set topicLabels"
    by code_simp
  have b: "analysis.topics (analyzeText ''I love software and loud music!'') \<noteq> []"
    by code_simp
  from generateTagline_default [of "analyzeText ''I love software and loud music!''"] a b
  show ?thesis by blast
qed

subsection \<open>Traits\<close>

lemma if_singleton:
  "(if c then [x] else if d then [y] else [z]) = [if c then x else if d then y else z]"
  by simp

text \<open>
  C10: the traits list has at least 2 and at most 5 entries; its first entry is a
  formality trait and its second an energy trait, whatever else follows, and the list is
  cut after its fifth entry.
\<close>

theorem mapTraits_length:
  "2 \<le> length (mapTraits a) \<and> length (mapTraits a) \<le> 5 \<and>
   (\<exists>f e rest. f \<in> set formalityTraits \<and> e \<in> set energyTraits \<and>
      mapTraits a = take 5 (f # e # rest))"
proof -
  define f where "f = (if js_gt (analysis.formality a) 0.7 then ''Professional''
                       else if js_lt (analysis.formality a) 0.3 then ''Casual'' else ''Balanced'')"
  define e where "e = (if js_gt (analysis.energy a) 0.7 then ''Energetic''
                       else if js_lt (analysis.energy a) 0.3 then ''Calm'' else ''Moderate'')"
  define rest where "rest =
     (if js_gt (strength (analysis.sentiment a)) 0.5
      then [if polarity (analysis.sentiment a) = ''positive''
            then ''Optimistic'' else ''Thoughtful'']
      else []) @
     (if js_gt (questionRatio a) 0.3 then [''Curious''] else []) @
     (if js_gt (exclamationRatio a) 0.3 then [''Expressive''] else []) @
     (if ''creativity'' \<in> set (analysis.topics a) then [''Creative''] else []) @
     (if ''technology'' \<in> set (analysis.topics a) then [''Tech-Savvy''] else []) @
     (if ''business'' \<in> set (analysis.topics a) then [''Strategic''] else []) @
     (if js_gt (richness (vocabulary a)) 0.7 then [''Articulate''] else [])"
  have "mapTraits a = take 5 ([] @ [f] @ [e] @ rest)"
    unfolding mapTraits_def Let_def if_singleton f_def e_def rest_def
    by (simp only: append_assoc)
  then have m: "mapTraits a = take 5 (f # e # rest)" by simp
  have "f \<in> set formalityTraits" by (simp add: f_def formalityTraits_def)
  moreover have "e \<in> set energyTraits" by (simp add: e_def energyTraits_def)
  moreover have "2 \<le> length (mapTraits a)" "length (mapTraits a) \<le> 5" by (simp_all add: m)
  ultimately show ?thesis using m by blast
qed

subsection \<open>Name\<close>

lemma randomChoice_member:
  assumes "0 \<le> shd g" "shd g < 1" "xs \<noteq> []"
  shows "\<exists>x\<in>set xs. randomChoice xs g = (Some x, stl g)"
proof -
  let ?n = "length xs"
  let ?i = "\<lfloor>shd g * of_nat ?n\<rfloor>"
  have n: "0 < ?n" using assms(3) by simp
  have "0 \<le> shd g * of_nat ?n" using assms(1) by simp
  then have lo: "0 \<le> ?i" by simp
  have "shd g * of_nat ?n < 1 * of_nat ?n"
    using assms(2) n by (intro mult_strict_right_mono) simp_all
  then have hi: "?i < int ?n" by (simp add: floor_less_iff)
  then have "nat ?i < ?n" using lo by linarith
  then have "xs ! nat ?i \<in> set xs" by simp
  moreover have "randomChoice xs g = (Some (xs ! nat ?i), stl g)"
    using lo hi by (simp add: randomChoice_def Let_def)
  ultimately show ?thesis by blast
qed

lemma rng_tail:
  "\<forall>x\<in>sset g. 0 \<le> x \<and> x < (1::rat) \<Longrightarrow> \<forall>x\<in>sset (stl g). 0 \<le> x \<and> x < 1"
  by (auto dest: stl_sset)

lemma rng_head: "\<forall>x\<in>sset g. 0 \<le> x \<and> x < (1::rat) \<Longrightarrow> 0 \<le> shd g \<and> shd g < 1"
  by (simp add: shd_sset)

lemma prefixBucket_nonempty: "prefixBucket a \<noteq> []"
  by (simp add: prefixBucket_def prefixes_high_energy_def prefixes_low_energy_def
      prefixes_creative_def prefixes_professional_def prefixes_friendly_def)

lemma suffix_lists_nonempty: "map_of suffixes t = Some l \<Longrightarrow> l \<noteq> []"
  by (auto simp: suffixes_def split: if_splits)

text \<open>
  C7: for every feature vector whose topics are labels of the fixed set and every
  sequence of random numbers in \<open>[0,1)\<close>, the persona name is a prefix followed
  directly by a suffix; the prefix is an entry of the bucket given by the priority order
  (energy above 0.7, energy below 0.3, topic creativity, formality above 0.7, friendly),
  and the suffix is an entry of the first topic's suffix list when it has one, and
  \<open>Mind\<close> otherwise.
\<close>

theorem generatePersonaName_buckets:
  assumes rng: "\<forall>x\<in>sset g. 0 \<le> x \<and> x < 1"
    and labels: "set (analysis.topics a) \<subseteq> set topicLabels"
  shows "\<exists>prefix suffix. fst (generatePersonaName a g) = prefix @ suffix \<and>
           prefix \<in> set (prefixBucket a) \<and> suffix \<in> set (suffixChoices a)"
proof -
  from randomChoice_member[OF _ _ prefixBucket_nonempty, of g a] rng_head[OF rng]
  obtain prefix where p: "prefix \<in> set (prefixBucket a)"
    "randomChoice (prefixBucket a) g = (Some prefix, stl g)" by blast
  have pre: "(if js_gt (analysis.energy a) 0.7 then randomChoice prefixes_high_energy g
             else if js_lt (analysis.energy a) 0.3 then randomChoice prefixes_low_energy g
             else if ''creativity'' \<in> set (analysis.topics a) then randomChoice prefixes_creative g
             else if js_gt (analysis.formality a) 0.7 then randomChoice prefixes_professional g
             else randomChoice prefixes_friendly g) = (Some prefix, stl g)"
    using p(2) by (auto simp: prefixBucket_def split: if_splits)
  have "\<exists>suffix g2. suffix \<in> set (suffixChoices a) \<and>
          (case analysis.topics a of
               [] \<Rightarrow> (Some ''Mind'', stl g)
             | primaryTopic # _ \<Rightarrow>
                 (if primaryTopic = [] then (Some ''Mind'', stl g)
                  else (case map_of suffixes primaryTopic of
                          None \<Rightarrow> (Some ''Mind'', stl g)
                        | Some list \<Rightarrow> randomChoice list (stl g)))) = (Some suffix, g2)"
  proof (cases "analysis.topics a")
    case Nil
    then show ?thesis by (simp add: suffixChoices_def)
  next
    case (Cons t ts)
    show ?thesis
    proof (cases "map_of suffixes t")
      case None
      with Cons show ?thesis by (simp add: suffixChoices_def)
    next
      case (Some l)
      then have "l \<noteq> []" by (rule suffix_lists_nonempty)
      from randomChoice_member[OF _ _ this, of "stl g"] rng_head[OF rng_tail[OF rng]]
      obtain s where "s \<in> set l" "randomChoice l (stl g) = (Some s, stl (stl g))" by blast
      moreover have "t \<noteq> []" using Some by (auto simp: suffixes_def)
      ultimately show ?thesis using Cons Some by (auto simp add: suffixChoices_def)
    qed
  qed
  then obtain suffix g2 where s: "suffix \<in> set (suffixChoices a)"
     "(case analysis.topics a of
               [] \<Rightarrow> (Some ''Mind'', stl g)
             | primaryTopic # _ \<Rightarrow>
                 (if primaryTopic = [] then (Some ''Mind'', stl g)
                  else (case map_of suffixes primaryTopic of
                          None \<Rightarrow> (Some ''Mind'', stl g)
                        | Some list \<Rightarrow> randomChoice list (stl g)))) = (Some suffix, g2)" by blast
  have "fst (generatePersonaName a g) = prefix @ suffix"
    unfolding generatePersonaName_def pre Let_def prod.case s(2) by simp
  with p(1) s(1) show ?thesis by blast
qed

theorem generatePersonaName_buckets_witness:
  "sset (sconst (1 / 2 :: rat)) = {1 / 2} \<and>
   set (analysis.topics (analyzeText ''I love software and loud music!'')) \<subseteq> set topicLabels \<and>
   (\<exists>prefix suffix.
      fst (generatePersonaName (analyzeText ''I love software and loud music!'')
             (sconst (1 / 2))) = prefix @ suffix \<and>
      prefix \<in> set (prefixBucket (analyzeText ''I love software and loud music!'')) \<and>
      suffix \<in> set (suffixChoices (analyzeText ''I love software and loud music!'')))"
proof -
  have r: "\<forall>x\<in>sset (sconst (1 / 2 :: rat)). 0 \<le> x \<and> x < 1" by simp
  have l: "set (analysis.topics (analyzeText ''I love software and loud music!'')) \<subseteq> set topicLabels"
    by code_simp
  from generatePersonaName_buckets [OF r l] l show ?thesis by simp
qed

section \<open>Properties of the response generator\<close>

subsection \<open>Exclamation mark of an energetic persona\<close>

text \<open>
  After the energy step the reply holds an exclamation mark, and what follows only
  appends to it.
\<close>

lemma applyPersonaStyle_exclamation:
  assumes "js_gt (communicationStyle.energy (communicationStyle p)) 0.7"
  shows "CHR ''!'' \<in> set (fst (applyPersonaStyle response p g))"
proof -
  define s1 where "s1 =
     (if js_gt (communicationStyle.formality (communicationStyle p)) 0.7 then makeFormal response
      else if js_lt (communicationStyle.formality (communicationStyle p)) 0.3
      then makeInformal response else response)"
  define s2 where "s2 = (if \<not> includesStr s1 ''!'' then s1 @ ''!'' else s1)"
  have s2: "CHR ''!'' \<in> set s2" by (simp add: s2_def includesStr_char)
  have "\<exists>rest. fst (applyPersonaStyle response p g) = s2 @ rest"
    unfolding applyPersonaStyle_def Let_def using assms
    by (auto simp: s1_def s2_def split: prod.splits)
  with s2 show ?thesis by auto
qed

text \<open>
  C8: for every persona profile with energy above 0.7, every utterance and every
  sequence of random numbers, the reply of \<open>generateResponse\<close> holds an exclamation
  mark; so does the result of \<open>applyPersonaStyle\<close> on any response.
\<close>

theorem generateResponse_exclamation:
  assumes "js_gt (communicationStyle.energy (communicationStyle p)) 0.7"
  shows "CHR ''!'' \<in> set (fst (generateResponse p userMessage g)) \<and>
         CHR ''!'' \<in> set (fst (applyPersonaStyle response p g))"
proof -
  have "\<exists>r g1. generateResponse p userMessage g = applyPersonaStyle r p g1"
    unfolding generateResponse_def Let_def case_prod_beta by blast
  then show ?thesis using applyPersonaStyle_exclamation[OF assms] by auto
qed

theorem generateResponse_exclamation_witness:
  "js_gt (communicationStyle.energy (communicationStyle examplePersona)) 0.7 \<and>
   CHR ''!'' \<in> set (fst (generateResponse examplePersona ''I had a quiet day.'' (sconst 0.5)))"
proof -
  have h: "js_gt (communicationStyle.energy (communicationStyle examplePersona)) 0.7"
    by (simp add: examplePersona_def)
  from generateResponse_exclamation[OF h] h show ?thesis by blast
qed

subsection \<open>Follow-up of a curious persona\<close>

lemma followUps_not_reflective: "f \<in> set followUps \<Longrightarrow> f \<notin> set reflectiveFollowUps"
  by (auto simp: followUps_def reflectiveFollowUps_def)

lemma generateFollowUp_curious:
  assumes "''Curious'' \<in> set (traits p)" "0 \<le> shd g" "shd g < 1"
  shows "\<exists>f\<in>set followUps. generateFollowUp userTokens p g = (Some f, stl g)"
proof -
  have "followUps \<noteq> []" by (simp add: followUps_def)
  from randomChoice_member[OF assms(2,3) this] assms(1) show ?thesis
    by (simp add: generateFollowUp_def)
qed

lemma reaction_choice:
  assumes "0 \<le> shd g" "shd g < 1"
  shows "\<exists>r\<in>set (concat (map snd reactionTemplates)).
           (case map_of reactionTemplates
                   (if polarity s = ''positive'' then ''positive''
                    else if polarity s = ''negative'' then ''negative'' else ''neutral'') of
              Some list \<Rightarrow> randomChoice list g | None \<Rightarrow> (None, stl g)) = (Some r, stl g)"
proof -
  have "\<exists>l. map_of reactionTemplates
                   (if polarity s = ''positive'' then ''positive''
                    else if polarity s = ''negative'' then ''negative'' else ''neutral'') = Some l \<and>
     l \<noteq> [] \<and> set l \<subseteq> set (concat (map snd reactionTemplates))"
    by (auto simp: reactionTemplates_def)
  then obtain l where l: "map_of reactionTemplates
                   (if polarity s = ''positive'' then ''positive''
                    else if polarity s = ''negative'' then ''negative'' else ''neutral'') = Some l"
     "l \<noteq> []" "set l \<subseteq> set (concat (map snd reactionTemplates))"
    by blast
  from randomChoice_member[OF assms l(2)]
  obtain x where x: "x \<in> set l" "randomChoice l g = (Some x, stl g)" by blast
  from x(1) l(3) have "x \<in> set (concat (map snd reactionTemplates))" by blast
  then show ?thesis unfolding l(1) option.case using x(2) by (intro bexI[where x = x])
qed

text \<open>
  C9: for every persona profile whose traits hold \<open>Curious\<close>, every utterance without a
  question mark and every sequence of random numbers in \<open>[0,1)\<close>, the follow-up line is
  an entry of the clarifying questions and none of the reflective lines, and the reply
  is the styled text of a reaction template, a space and that follow-up line.
\<close>

theorem curious_followUp:
  assumes curious: "''Curious'' \<in> set (traits p)"
    and reactive: "CHR ''?'' \<notin> set userMessage"
    and rng: "\<forall>x\<in>sset g. 0 \<le> x \<and> x < 1"
  shows "\<exists>reaction followUp.
           reaction \<in> set (concat (map snd reactionTemplates)) \<and>
           followUp \<in> set followUps \<and> followUp \<notin> set reflectiveFollowUps \<and>
           generateFollowUp (tokenize (toLowerCase userMessage)) p (stl g) =
             (Some followUp, stl (stl g)) \<and>
           generateResponse p userMessage g =
             applyPersonaStyle (reaction @ '' '' @ followUp) p (stl (stl g))"
proof -
  let ?tokens = "tokenize (toLowerCase userMessage)"
  from rng_head[OF rng] reaction_choice[of g "analyzeSentiment ?tokens"]
  obtain r where r: "r \<in> set (concat (map snd reactionTemplates))"
    "(case map_of reactionTemplates
            (if polarity (analyzeSentiment ?tokens) = ''positive'' then ''positive''
             else if polarity (analyzeSentiment ?tokens) = ''negative'' then ''negative''
             else ''neutral'') of
        Some list \<Rightarrow> randomChoice list g | None \<Rightarrow> (None, stl g)) = (Some r, stl g)"
    by blast
  from rng_head[OF rng_tail[OF rng]] generateFollowUp_curious[OF curious, of "stl g" ?tokens]
  obtain f where f: "f \<in> set followUps"
    "generateFollowUp ?tokens p (stl g) = (Some f, stl (stl g))" by blast
  have "generateReactiveResponse userMessage ?tokens (analyzeSentiment ?tokens) p g
          = (r @ '' '' @ f, stl (stl g))"
    unfolding generateReactiveResponse_def Let_def r(2) prod.case f(2) by simp
  then have "generateResponse p userMessage g = applyPersonaStyle (r @ '' '' @ f) p (stl (stl g))"
    using reactive by (simp add: generateResponse_def Let_def includesStr_char)
  with r(1) f followUps_not_reflective[OF f(1)] show ?thesis by blast
qed

theorem curious_followUp_witness:
  "''Curious'' \<in> set (traits examplePersona) \<and>
   CHR ''?'' \<notin> set ''I had a quiet day.'' \<and>
   sset (sconst (1 / 2 :: rat)) = {1 / 2} \<and>
   (\<exists>reaction followUp.
      reaction \<in> set (concat (map snd reactionTemplates)) \<and>
      followUp \<in> set followUps \<and> followUp \<notin> set reflectiveFollowUps \<and>
      generateFollowUp (tokenize (toLowerCase ''I had a quiet day.'')) examplePersona
          (stl (sconst (1 / 2))) = (Some followUp, stl (stl (sconst (1 / 2)))) \<and>
      generateResponse examplePersona ''I had a quiet day.'' (sconst (1 / 2)) =
        applyPersonaStyle (reaction @ '' '' @ followUp) examplePersona
          (stl (stl (sconst (1 / 2)))))"
proof -
  have a: "''Curious'' \<in> set (traits examplePersona)" by (simp add: examplePersona_def)
  have b: "CHR ''?'' \<notin> set ''I had a quiet day.''" by simp
  have c: "\<forall>x\<in>sset (sconst (1 / 2 :: rat)). 0 \<le> x \<and> x < 1" by simp
  from curious_followUp[OF a b c] a b show ?thesis by simp
qed

section \<open>Properties of the topic extractor\<close>

text \<open>
  C5, as stated, fails on the score. The token \<open>artistic\<close> includes the keywords
  \<open>art\<close> and \<open>artistic\<close> of creativity and counts twice, so creativity comes
  before technology; by the count of tokens both topics have one token, and the
  declaration order would put technology first.
\<close>

theorem extractTopics_counts_keywords:
  "extractTopics [''artistic'', ''code''] = [''creativity'', ''technology''] \<and>
   containingCount [''artistic'', ''code''] ''technology'' = 1 \<and>
   containingCount [''artistic'', ''code''] ''creativity'' = 1 \<and>
   topicIndex ''technology'' < topicIndex ''creativity'' \<and>
   topicScore [''artistic'', ''code''] ''creativity'' = 2"
  by code_simp

lemma insort_key_ranked:
  fixes f :: "'a \<Rightarrow> int" and pos :: "'a \<Rightarrow> nat"
  assumes "sorted_wrt (\<lambda>x y. f x < f y \<or> (f x = f y \<and> pos x < pos y)) ys"
    and "\<forall>y\<in>set ys. pos x < pos y"
  shows "sorted_wrt (\<lambda>x y. f x < f y \<or> (f x = f y \<and> pos x < pos y)) (insort_key f x ys)"
  using assms
proof (induction ys)
  case Nil
  then show ?case by simp
next
  case (Cons y ys)
  show ?case
  proof (cases "f x \<le> f y")
    case True
    have "f x < f z \<or> (f x = f z \<and> pos x < pos z)" if "z \<in> set (y # ys)" for z
    proof -
      have "f y \<le> f z" using that Cons.prems(1) by auto
      with True have "f x \<le> f z" by simp
      moreover have "pos x < pos z" using that Cons.prems(2) by auto
      ultimately show ?thesis by auto
    qed
    with True Cons.prems(1) show ?thesis by simp
  next
    case False
    then have "f y < f x" by simp
    moreover have "sorted_wrt (\<lambda>x y. f x < f y \<or> (f x = f y \<and> pos x < pos y)) (insort_key f x ys)"
      using Cons by simp
    ultimately show ?thesis using False Cons.prems(1) by (auto simp: set_insort_key)
  qed
qed

lemma sort_key_ranked:
  fixes f :: "'a \<Rightarrow> int" and pos :: "'a \<Rightarrow> nat"
  assumes "sorted_wrt (\<lambda>x y. pos x < pos y) xs"
  shows "sorted_wrt (\<lambda>x y. f x < f y \<or> (f x = f y \<and> pos x < pos y)) (sort_key f xs)"
  using assms
proof (induction xs)
  case Nil
  then show ?case by simp
next
  case (Cons x xs)
  then have "sorted_wrt (\<lambda>x y. f x < f y \<or> (f x = f y \<and> pos x < pos y)) (sort_key f xs)"
    by simp
  moreover have "\<forall>y\<in>set (sort_key f xs). pos x < pos y" using Cons.prems by simp
  ultimately show ?case by (simp add: insort_key_ranked)
qed

lemma sorted_wrt_irrefl_distinct:
  "sorted_wrt R xs \<Longrightarrow> (\<And>x. \<not> R x x) \<Longrightarrow> distinct xs"
  by (induction xs) auto

lemma fold_sum: "fold (\<lambda>k (s::nat). s + h k) ks a = a + sum_list (map h ks)"
  by (induction ks arbitrary: a) simp_all

lemma keywordScore_sum:
  "keywordScore tokens keywords =
     sum_list (map (\<lambda>keyword. length (filter (\<lambda>token. includesStr token keyword) tokens)) keywords)"
  by (simp add: keywordScore_def fold_sum)

lemma topicKeywords_distinct: "distinct (map fst topicKeywords)"
  by (simp add: topicKeywords_def)

lemma topicScores_score:
  assumes "(t, sc) \<in> set (topicScores tokens)"
  shows "sc = topicScore tokens t"
proof -
  from assms obtain ks where ks: "(t, ks) \<in> set topicKeywords" "sc = keywordScore tokens ks"
    by (auto simp: topicScores_def)
  from ks(1) have "map_of topicKeywords t = Some ks"
    using topicKeywords_distinct by simp
  with ks(2) show ?thesis by (simp add: topicScore_def keywordScore_sum)
qed

lemma topicScores_positions:
  "sorted_wrt (\<lambda>x y. topicIndex (fst x) < topicIndex (fst y)) (topicScores tokens)"
  by (simp add: topicScores_def topicKeywords_def topicIndex_def topicLabels_def)

lemma topicScores_labels: "map fst (topicScores tokens) = topicLabels"
  by (simp add: topicScores_def topicLabels_def case_prod_beta comp_def)

lemma sorted_topicScores_ranked:
  "sorted_wrt (\<lambda>x y. ranksBefore tokens (fst x) (fst y))
     (sort_key (\<lambda>(topic, score). - int score) (topicScores tokens))"
proof -
  let ?key = "\<lambda>(topic, score :: nat). - int score"
  let ?S = "sort_key ?key (topicScores tokens)"
  have "sorted_wrt (\<lambda>x y. ?key x < ?key y \<or>
                          (?key x = ?key y \<and> topicIndex (fst x) < topicIndex (fst y))) ?S"
    using topicScores_positions by (rule sort_key_ranked)
  moreover have "ranksBefore tokens (fst x) (fst y)"
    if "x \<in> set ?S" "y \<in> set ?S"
      "?key x < ?key y \<or> (?key x = ?key y \<and> topicIndex (fst x) < topicIndex (fst y))"
    for x y
  proof -
    obtain s a t b where xy: "x = (s, a)" "y = (t, b)" by (cases x, cases y) blast
    with that(1,2) have "a = topicScore tokens s" "b = topicScore tokens t"
      by (auto dest: topicScores_score)
    with that(3) xy show ?thesis by (auto simp: ranksBefore_def)
  qed
  ultimately show ?thesis by (rule sorted_wrt_mono_rel[rotated])
qed

text \<open>
  C5 (amended): \<open>extractTopics\<close> returns at most 3 topic labels, without duplicates,
  each with a score above zero, where the score of a topic is the sum over its keywords
  of the number of tokens that include the keyword (a token that includes two keywords
  of the topic counts twice); the list is in descending order of the score, ties in the
  declaration order of the topics, and a topic with a score above zero is left out only
  when three topics rank before it.
\<close>

theorem extractTopics_ranked:
  "length (extractTopics tokens) \<le> 3 \<and>
   distinct (extractTopics tokens) \<and>
   set (extractTopics tokens) \<subseteq> set topicLabels \<and>
   (\<forall>t\<in>set (extractTopics tokens). 0 < topicScore tokens t) \<and>
   sorted_wrt (ranksBefore tokens) (extractTopics tokens) \<and>
   (\<forall>t\<in>set topicLabels. 0 < topicScore tokens t \<and> t \<notin> set (extractTopics tokens) \<longrightarrow>
      length (extractTopics tokens) = 3 \<and>
      (\<forall>s\<in>set (extractTopics tokens). ranksBefore tokens s t))"
proof -
  let ?key = "\<lambda>(topic, score :: nat). - int score"
  let ?S = "sort_key ?key (topicScores tokens)"
  let ?pos = "\<lambda>(topic, score :: nat). score > 0"
  have ex: "extractTopics tokens = map fst (filter ?pos (take 3 ?S))"
    by (simp add: extractTopics_def)
  have ranked: "sorted_wrt (\<lambda>x y. ranksBefore tokens (fst x) (fst y)) ?S"
    by (rule sorted_topicScores_ranked)
  have score: "sc = topicScore tokens t" if "(t, sc) \<in> set ?S" for t sc
    using that by (auto dest: topicScores_score)
  have len: "length (extractTopics tokens) \<le> 3"
    unfolding ex by (simp add: le_trans[OF length_filter_le])
  have sorted: "sorted_wrt (ranksBefore tokens) (extractTopics tokens)"
    unfolding ex sorted_wrt_map
    by (intro sorted_wrt_filter sorted_wrt_take ranked)
  have dist: "distinct (extractTopics tokens)"
    using sorted by (rule sorted_wrt_irrefl_distinct) (simp add: ranksBefore_def)
  have pos: "\<forall>t\<in>set (extractTopics tokens). 0 < topicScore tokens t"
  proof
    fix t assume "t \<in> set (extractTopics tokens)"
    then obtain sc where "(t, sc) \<in> set (take 3 ?S)" "0 < sc"
      unfolding ex by auto
    with score[of t sc] show "0 < topicScore tokens t" by (auto dest: in_set_takeD)
  qed
  have top: "length (extractTopics tokens) = 3 \<and>
             (\<forall>s\<in>set (extractTopics tokens). ranksBefore tokens s t)"
    if t: "t \<in> set topicLabels" "0 < topicScore tokens t" "t \<notin> set (extractTopics tokens)" for t
  proof -
    from t(1) obtain sc where in_scores: "(t, sc) \<in> set (topicScores tokens)"
      unfolding topicScores_labels[of tokens, symmetric] by auto
    then have in_S: "(t, sc) \<in> set ?S" by simp
    with score have sc: "sc = topicScore tokens t" by simp
    have "(t, sc) \<notin> set (take 3 ?S)"
    proof
      assume "(t, sc) \<in> set (take 3 ?S)"
      with sc t(2) have "(t, sc) \<in> set (filter ?pos (take 3 ?S))" by simp
      then have "t \<in> set (extractTopics tokens)" unfolding ex by force
      with t(3) show False by simp
    qed
    with in_S have in_drop: "(t, sc) \<in> set (drop 3 ?S)"
      by (metis Un_iff append_take_drop_id set_append)
    have "sorted_wrt (\<lambda>x y. ranksBefore tokens (fst x) (fst y)) (take 3 ?S @ drop 3 ?S)"
      using ranked by simp
    with in_drop have before: "\<forall>x\<in>set (take 3 ?S). ranksBefore tokens (fst x) t"
      unfolding sorted_wrt_append by force
    have all_pos: "?pos x" if "x \<in> set (take 3 ?S)" for x
    proof -
      obtain s a where x: "x = (s, a)" by (cases x)
      with that score[of s a] have "a = topicScore tokens s" by (auto dest: in_set_takeD)
      moreover from before that x have "ranksBefore tokens s t" by auto
      ultimately show ?thesis using t(2) x by (auto simp: ranksBefore_def)
    qed
    then have all: "filter ?pos (take 3 ?S) = take 3 ?S" by (simp add: filter_id_conv)
    have "length ?S = length topicLabels"
      unfolding topicScores_labels[of tokens, symmetric] by simp
    then have "length ?S = 6" by (simp add: topicLabels_def topicKeywords_def)
    then have "length (extractTopics tokens) = 3" unfolding ex all by simp
    moreover have "\<forall>s\<in>set (extractTopics tokens). ranksBefore tokens s t"
      unfolding ex all using before by auto
    ultimately show ?thesis by blast
  qed
  from len dist extractTopics_labels pos sorted top show ?thesis by blast
qed

theorem extractTopics_ranked_witness:
  "''education'' \<in> set topicLabels \<and>
   0 < topicScore [''artistic'', ''code'', ''business'', ''study''] ''education'' \<and>
   ''education'' \<notin> set (extractTopics [''artistic'', ''code'', ''business'', ''study'']) \<and>
   length (extractTopics [''artistic'', ''code'', ''business'', ''study'']) = 3 \<and>
   list_all (\<lambda>s. ranksBefore [''artistic'', ''code'', ''business'', ''study''] s ''education'')
     (extractTopics [''artistic'', ''code'', ''business'', ''study''])"
proof -
  have a: "''education'' \<in> set topicLabels" by code_simp
  have b: "0 < topicScore [''artistic'', ''code'', ''business'', ''study''] ''education''"
    by code_simp
  have c: "''education'' \<notin> set (extractTopics [''artistic'', ''code'', ''business'', ''study''])"
    by code_simp
  from extractTopics_ranked [of "[''artistic'', ''code'', ''business'', ''study'']"] a b c
  show ?thesis unfolding list_all_iff by blast
qed

end
